theory Spec2Isabelle
  imports Complex_Main
begin

section \<open>Data model of the chat client\<close>

text \<open>
  The client library (\<^verbatim>\<open>lib/api\<close>) declares the rows the backend returns. JavaScript
  strings are modelled as \<^typ>\<open>string\<close>; a field named \<^verbatim>\<open>id\<close> in the source carries
  the prefix of its interface here, since \<^verbatim>\<open>id\<close> is the identity function of HOL.
\<close>

record user =
  u_id :: string
  u_email :: string
  u_name :: string
  u_created_at :: string

record chat_session =
  cs_id :: string
  cs_user_id :: string
  cs_title :: string
  cs_created_at :: string

datatype role = User | Assistant

record backend_message =
  bm_id :: string
  bm_session_id :: string
  bm_role :: role
  bm_content :: string
  bm_created_at :: string

record source =
  src_title :: "string option"
  src_url :: "string option"
  src_score :: "real option"

record chat_response =
  cr_query :: string
  cr_sources :: "source list"
  final_answer :: string

text \<open>The message of the chat view: \<^verbatim>\<open>type: "user" | "ai"\<close>, \<^verbatim>\<open>sources?\<close> optional.\<close>

datatype message_type = TUser | TAi

record message =
  m_id :: string
  m_type :: message_type
  m_content :: string
  m_sources :: "source list option"

text \<open>
  What the component reads of the identity provider's session: \<^verbatim>\<open>session.user.email\<close>
  and \<^verbatim>\<open>session.user.user_metadata?.full_name\<close>, both possibly undefined.
\<close>

record auth_session =
  au_email :: "string option"
  au_full_name :: "string option"

text \<open>
  A thrown value: an \<^verbatim>\<open>Error\<close> instance with its message (\<^verbatim>\<open>ApiError\<close>, a network
  \<^verbatim>\<open>TypeError\<close>), or any other value, for which \<^verbatim>\<open>err instanceof Error\<close> is false.
\<close>

datatype exn = Error string | NotAnError

text \<open>
  The backend as the client sees it: every function of \<^verbatim>\<open>lib/api\<close> that awaits a
  \<^verbatim>\<open>fetch\<close> either throws or resolves to the parsed body. The record holds what each
  call answers; the client functions below take it as a parameter.
\<close>

record backend =
  registerUser :: "string \<Rightarrow> string \<Rightarrow> exn + user"
  getUserSessions :: "string \<Rightarrow> exn + chat_session list \<times> string"
  createChatSession :: "string \<Rightarrow> string \<Rightarrow> exn + user \<times> chat_session"
  storeMessage :: "string \<Rightarrow> role \<Rightarrow> string \<Rightarrow> exn + unit"
  fetchMessages :: "string \<Rightarrow> exn + backend_message list"
  sendChatMessage :: "string \<Rightarrow> exn + chat_response"

text \<open>
  Effects that leave the component, in the order they are issued: the backend calls with
  their arguments and the writes to \<^verbatim>\<open>localStorage\<close>.
\<close>

datatype event =
    Call_registerUser string string
  | Call_getUserSessions string
  | Call_createChatSession string string
  | Call_storeMessage string role string
  | Call_fetchMessages string
  | Call_sendChatMessage string
  | LS_setItem string string
  | LS_removeItem string

text \<open>
  The state of the \<^verbatim>\<open>Chat\<close> component (its \<^verbatim>\<open>useState\<close> cells), the browser's
  \<^verbatim>\<open>localStorage\<close> and the effects issued so far.
\<close>

record client =
  messages :: "message list"
  input :: string
  loading :: bool
  error :: "string option"
  session :: "auth_session option"
  authError :: "string option"
  currentUser :: "user option"
  chatSession :: "chat_session option"
  initLoading :: bool
  profileOpen :: bool
  localStorage :: "string \<rightharpoonup> string"
  trace :: "event list"

text \<open>A block that may throw: the state reached is kept either way.\<close>

datatype 'a outcome = Throws exn client | Returns 'a client

section \<open>Local storage helpers\<close>

definition SESSION_KEY :: string where
  "SESSION_KEY = ''current_session_id''"

definition saveCurrentSession :: "string \<Rightarrow> client \<Rightarrow> client" where
  "saveCurrentSession sessionId st =
     st\<lparr>localStorage := (localStorage st)(SESSION_KEY \<mapsto> sessionId),
        trace := trace st @ [LS_setItem SESSION_KEY sessionId]\<rparr>"

definition getCurrentSession :: "client \<Rightarrow> string option" where
  "getCurrentSession st = localStorage st SESSION_KEY"

definition clearCurrentSession :: "client \<Rightarrow> client" where
  "clearCurrentSession st =
     st\<lparr>localStorage := (localStorage st)(SESSION_KEY := None),
        trace := trace st @ [LS_removeItem SESSION_KEY]\<rparr>"

definition issue :: "event \<Rightarrow> client \<Rightarrow> client" where
  "issue e st = st\<lparr>trace := trace st @ [e]\<rparr>"

section \<open>The session reconciler\<close>

text \<open>
  \<^verbatim>\<open>session?.user?.email\<close> as a condition: undefined and the empty string are falsy.
\<close>

definition principal_email :: "auth_session option \<Rightarrow> string option" where
  "principal_email s =
     (case s of
        None \<Rightarrow> None
      | Some a \<Rightarrow>
          (case au_email a of
             None \<Rightarrow> None
           | Some e \<Rightarrow> if e = [] then None else Some e))"

text \<open>
  \<^verbatim>\<open>session.user.user_metadata?.full_name || session.user.email.split("@")[0]\<close>
\<close>

definition registrationName :: "auth_session option \<Rightarrow> string \<Rightarrow> string" where
  "registrationName s email =
     (case s of
        None \<Rightarrow> takeWhile (\<lambda>c. c \<noteq> CHR ''@'') email
      | Some a \<Rightarrow>
          (case au_full_name a of
             None \<Rightarrow> takeWhile (\<lambda>c. c \<noteq> CHR ''@'') email
           | Some n \<Rightarrow> if n = [] then takeWhile (\<lambda>c. c \<noteq> CHR ''@'') email else n))"

text \<open>
  Lines 96 to 108: the stored identifier is looked up in the list only when it is truthy
  (neither null nor empty) and the list is non-empty; \<^verbatim>\<open>find\<close> returns the first entry
  with that identifier. A stored identifier that is not found is removed.
\<close>

definition restoreStoredSession ::
  "chat_session list \<Rightarrow> client \<Rightarrow> (chat_session option \<times> bool) \<times> client" where
  "restoreStoredSession sessions st =
     (case getCurrentSession st of
        None \<Rightarrow> ((None, False), st)
      | Some storedSessionId \<Rightarrow>
          if storedSessionId \<noteq> [] \<and> length sessions > 0 then
            (case List.find (\<lambda>s. cs_id s = storedSessionId) sessions of
               Some s \<Rightarrow> ((Some s, True), st)
             | None \<Rightarrow> ((None, False), clearCurrentSession st))
          else ((None, False), st))"

text \<open>
  Lines 111 to 130: without a restored session, the first entry of the list is taken and
  saved, or a session titled \<^verbatim>\<open>New Conversation\<close> is created and saved.
\<close>

definition chooseSession ::
  "backend \<Rightarrow> string \<Rightarrow> chat_session list \<Rightarrow> chat_session option \<times> bool \<Rightarrow> client
     \<Rightarrow> (chat_session \<times> bool) outcome" where
  "chooseSession be email sessions found st =
     (case fst found of
        Some activeSession \<Rightarrow> Returns (activeSession, snd found) st
      | None \<Rightarrow>
          if length sessions > 0 then
            Returns (sessions ! 0, True) (saveCurrentSession (cs_id (sessions ! 0)) st)
          else
            (case createChatSession be email ''New Conversation'' of
               Inl e \<Rightarrow> Throws e (issue (Call_createChatSession email ''New Conversation'') st)
             | Inr (u, newSession) \<Rightarrow>
                 Returns (newSession, False)
                   (saveCurrentSession (cs_id newSession)
                      (issue (Call_createChatSession email ''New Conversation'') st))))"

text \<open>Lines 140 to 144: a backend message in the format of the view.\<close>

definition uiMessage :: "backend_message \<Rightarrow> message" where
  "uiMessage msg =
     \<lparr>m_id = bm_id msg,
      m_type = (if bm_role msg = User then TUser else TAi),
      m_content = bm_content msg,
      m_sources = None\<rparr>"

text \<open>
  Lines 135 to 156: the history is fetched when asked for; a failure of the fetch is
  caught here and only sets the error text.
\<close>

definition loadMessages :: "backend \<Rightarrow> chat_session \<Rightarrow> bool \<Rightarrow> client \<Rightarrow> client" where
  "loadMessages be activeSession shouldLoadMessages st =
     (if shouldLoadMessages then
        (case fetchMessages be (cs_id activeSession) of
           Inr backendMessages \<Rightarrow>
             (issue (Call_fetchMessages (cs_id activeSession)) st)
               \<lparr>messages := map uiMessage backendMessages\<rparr>
         | Inl msgErr \<Rightarrow>
             (issue (Call_fetchMessages (cs_id activeSession)) st)
               \<lparr>error := Some ''Failed to load message history''\<rparr>)
      else st\<lparr>messages := []\<rparr>)"

text \<open>Lines 76 to 156: the body of the \<^verbatim>\<open>try\<close>.\<close>

definition initTry :: "backend \<Rightarrow> string \<Rightarrow> client \<Rightarrow> unit outcome" where
  "initTry be email st =
     (let name = registrationName (session st) email;
          st1 = issue (Call_registerUser email name) (st\<lparr>initLoading := True, error := None\<rparr>)
      in case registerUser be email name of
           Inl e \<Rightarrow> Throws e st1
         | Inr u \<Rightarrow>
             (let st2 = issue (Call_getUserSessions email) (st1\<lparr>currentUser := Some u\<rparr>)
              in case getUserSessions be email of
                   Inl e \<Rightarrow> Throws e st2
                 | Inr (sessions, uid) \<Rightarrow>
                     (case chooseSession be email sessions
                             (fst (restoreStoredSession sessions st2))
                             (snd (restoreStoredSession sessions st2)) of
                        Throws e st3 \<Rightarrow> Throws e st3
                      | Returns (activeSession, shouldLoadMessages) st3 \<Rightarrow>
                          Returns ()
                            (loadMessages be activeSession shouldLoadMessages
                               (st3\<lparr>chatSession := Some activeSession\<rparr>)))))"

text \<open>\<^verbatim>\<open>err instanceof Error ? err.message : fallback\<close>\<close>

definition errorMessage :: "exn \<Rightarrow> string \<Rightarrow> string" where
  "errorMessage err fallback = (case err of Error m \<Rightarrow> m | NotAnError \<Rightarrow> fallback)"

text \<open>Lines 158 to 164: the \<^verbatim>\<open>catch\<close> of the initialisation.\<close>

definition initCatch :: "exn \<Rightarrow> client \<Rightarrow> client" where
  "initCatch err st =
     (clearCurrentSession
        (st\<lparr>error := Some (errorMessage err ''Initialization failed. Please try refreshing.'')\<rparr>))
       \<lparr>chatSession := None, messages := []\<rparr>"

text \<open>
  Lines 69 to 168. Without an e-mail the function only ends the initialising state; the
  \<^verbatim>\<open>finally\<close> ends it on the other paths.
\<close>

definition initializeUserAndChat :: "backend \<Rightarrow> client \<Rightarrow> client" where
  "initializeUserAndChat be st =
     (case principal_email (session st) of
        None \<Rightarrow> st\<lparr>initLoading := False\<rparr>
      | Some email \<Rightarrow>
          (case initTry be email st of
             Returns u st' \<Rightarrow> st'\<lparr>initLoading := False\<rparr>
           | Throws err st' \<Rightarrow> (initCatch err st')\<lparr>initLoading := False\<rparr>))"

text \<open>
  Lines 188 to 203: the listener of the identity provider. A null session (sign-out)
  clears the stored identifier and the view.
\<close>

definition onAuthStateChange :: "bool \<Rightarrow> auth_session option \<Rightarrow> client \<Rightarrow> client" where
  "onAuthStateChange isMounted newSession st =
     (if \<not> isMounted then st
      else if newSession = None then
        (clearCurrentSession (st\<lparr>session := newSession, authError := None\<rparr>))
          \<lparr>currentUser := None, chatSession := None, messages := [], profileOpen := False\<rparr>
      else st\<lparr>session := newSession, authError := None\<rparr>)"

section \<open>Sending a message\<close>

text \<open>
  \<^verbatim>\<open>input.trim()\<close> is empty when every character is white space; the characters of
  \<^typ>\<open>char\<close> that JavaScript trims are the codes 9 to 13, 32 and 160.
\<close>

definition js_whitespace :: "char \<Rightarrow> bool" where
  "js_whitespace c = (of_char c \<in> {9, 10, 11, 12, 13, 32, 160 :: nat})"

definition trim :: "string \<Rightarrow> string" where
  "trim s = rev (dropWhile js_whitespace (rev (dropWhile js_whitespace s)))"

text \<open>\<^verbatim>\<open>Date.now().toString()\<close>: the decimal digits of the clock value.\<close>

fun toString :: "nat \<Rightarrow> string" where
  "toString n =
     (if n < 10 then [char_of (48 + n)]
      else toString (n div 10) @ [char_of (48 + n mod 10)])"

declare toString.simps [simp del]

text \<open>Line 295: \<^verbatim>\<open>data.final_answer || "No response generated"\<close>.\<close>

definition displayedAnswer :: "string \<Rightarrow> string" where
  "displayedAnswer a = (if a = [] then ''No response generated'' else a)"

text \<open>
  Lines 292 to 297. \<^verbatim>\<open>data.sources || []\<close> is \<^verbatim>\<open>data.sources\<close>, an array being
  truthy also when empty.
\<close>

definition aiMessage :: "nat \<Rightarrow> chat_response \<Rightarrow> message" where
  "aiMessage now d =
     \<lparr>m_id = toString (now + 1),
      m_type = TAi,
      m_content = displayedAnswer (final_answer d),
      m_sources = Some (cr_sources d)\<rparr>"

text \<open>Lines 281 to 299: the body of the \<^verbatim>\<open>try\<close> of a submit.\<close>

definition submitTry :: "backend \<Rightarrow> nat \<Rightarrow> string \<Rightarrow> string \<Rightarrow> client \<Rightarrow> unit outcome" where
  "submitTry be now2 sid userQuery st =
     (case storeMessage be sid User userQuery of
        Inl e \<Rightarrow> Throws e (issue (Call_storeMessage sid User userQuery) st)
      | Inr ack1 \<Rightarrow>
          (case sendChatMessage be userQuery of
             Inl e \<Rightarrow>
               Throws e (issue (Call_sendChatMessage userQuery)
                          (issue (Call_storeMessage sid User userQuery) st))
           | Inr d \<Rightarrow>
               (let st3 = issue (Call_storeMessage sid Assistant (final_answer d))
                            (issue (Call_sendChatMessage userQuery)
                               (issue (Call_storeMessage sid User userQuery) st))
                in case storeMessage be sid Assistant (final_answer d) of
                     Inl e \<Rightarrow> Throws e st3
                   | Inr ack2 \<Rightarrow>
                       Returns () (st3\<lparr>messages := messages st3 @ [aiMessage now2 d]\<rparr>))))"

text \<open>
  Lines 251 to 308. \<^verbatim>\<open>now1\<close> and \<^verbatim>\<open>now2\<close> are the two readings of \<^verbatim>\<open>Date.now()\<close>.
\<close>

definition handleSubmit :: "backend \<Rightarrow> nat \<Rightarrow> nat \<Rightarrow> client \<Rightarrow> client" where
  "handleSubmit be now1 now2 st =
     (if trim (input st) = [] then st
      else if principal_email (session st) = None then
        st\<lparr>error := Some ''Please sign in to chat''\<rparr>
      else
        (case chatSession st of
           None \<Rightarrow> st\<lparr>error := Some ''Chat session not initialized. Please refresh the page.''\<rparr>
         | Some cs \<Rightarrow>
             (case submitTry be now2 (cs_id cs) (input st)
                     (st\<lparr>messages := messages st @
                            [\<lparr>m_id = toString now1, m_type = TUser,
                              m_content = input st, m_sources = None\<rparr>],
                         input := [], loading := True, error := None\<rparr>) of
                Returns u st' \<Rightarrow> st'\<lparr>loading := False\<rparr>
              | Throws err st' \<Rightarrow>
                  st'\<lparr>error := Some (errorMessage err ''Failed to fetch response''),
                      loading := False\<rparr>)))"

section \<open>What the view shows\<close>

text \<open>
  The bubble shows \<^verbatim>\<open>message.content\<close>; the cards below it are drawn for an answer
  whose sources are present and non-empty, one card per source, a title or a link being
  drawn when truthy.
\<close>

definition truthy :: "string option \<Rightarrow> string option" where
  "truthy s = (case s of None \<Rightarrow> None | Some t \<Rightarrow> if t = [] then None else Some t)"


definition errorBanner :: "client \<Rightarrow> string option" where
  "errorBanner st = truthy (error st)"

section \<open>The message store\<close>

text \<open>
  Modelled from the spec: the message store is a backend component whose code is not part
  of the client; the specification describes it as append-only, \<^verbatim>\<open>append message\<close>
  adding a role-tagged message to a session on acknowledgement. The rows the store holds
  after a sequence of client effects are the acknowledged appends, in order.
\<close>

fun messageStore :: "backend \<Rightarrow> event list \<Rightarrow> (string \<times> role \<times> string) list" where
  "messageStore be [] = []"
| "messageStore be (Call_storeMessage sid r c # es) =
     (case storeMessage be sid r c of
        Inr ack \<Rightarrow> (sid, r, c) # messageStore be es
      | Inl e \<Rightarrow> messageStore be es)"
| "messageStore be (e # es) = messageStore be es"

section \<open>Scenarios\<close>

text \<open>
  Concrete backends and clients on which the theorems below are exercised. A scripted
  backend answers every call of one kind with a fixed result; appends answer by role.
\<close>

definition scriptedBackend ::
  "(exn + user) \<Rightarrow> (exn + chat_session list \<times> string) \<Rightarrow> (exn + user \<times> chat_session)
     \<Rightarrow> (exn + unit) \<Rightarrow> (exn + unit) \<Rightarrow> (exn + backend_message list)
     \<Rightarrow> (exn + chat_response) \<Rightarrow> backend" where
  "scriptedBackend reg lst cre appU appA fet syn =
     \<lparr>registerUser = (\<lambda>email name. reg),
      getUserSessions = (\<lambda>email. lst),
      createChatSession = (\<lambda>email title. cre),
      storeMessage = (\<lambda>sid r c. case r of User \<Rightarrow> appU | Assistant \<Rightarrow> appA),
      fetchMessages = (\<lambda>sid. fet),
      sendChatMessage = (\<lambda>q. syn)\<rparr>"

definition alice :: auth_session where
  "alice = \<lparr>au_email = Some ''alice@example.com'', au_full_name = Some ''Alice''\<rparr>"

definition aliceUser :: user where
  "aliceUser = \<lparr>u_id = ''u1'', u_email = ''alice@example.com'', u_name = ''Alice'',
                u_created_at = ''2024-01-01''\<rparr>"

definition sessionOf :: "string \<Rightarrow> chat_session" where
  "sessionOf i = \<lparr>cs_id = i, cs_user_id = ''u1'', cs_title = ''New Conversation'',
                  cs_created_at = ''2024-01-02''\<rparr>"

definition storedMessage :: "string \<Rightarrow> role \<Rightarrow> string \<Rightarrow> backend_message" where
  "storedMessage i r c = \<lparr>bm_id = i, bm_session_id = ''abc'', bm_role = r, bm_content = c,
                          bm_created_at = ''2024-01-03''\<rparr>"

definition answerOf :: "string \<Rightarrow> source list \<Rightarrow> chat_response" where
  "answerOf a srcs = \<lparr>cr_query = ''What is Spectra?'', cr_sources = srcs, final_answer = a\<rparr>"

definition sourceOf :: "string \<Rightarrow> string \<Rightarrow> source" where
  "sourceOf t u = \<lparr>src_title = Some t, src_url = Some u, src_score = None\<rparr>"

text \<open>The component as mounted: the initial values of its state cells, nothing stored.\<close>

definition freshClient :: client where
  "freshClient =
     \<lparr>messages = [], input = [], loading = False, error = None, session = None,
      authError = None, currentUser = None, chatSession = None, initLoading = True,
      profileOpen = False, localStorage = Map.empty, trace = []\<rparr>"

definition signedIn :: "string option \<Rightarrow> client" where
  "signedIn p =
     freshClient\<lparr>session := Some alice,
                 localStorage := (\<lambda>k. if k = SESSION_KEY then p else None)\<rparr>"

text \<open>A client in the middle of a conversation in session \<^verbatim>\<open>abc\<close>.\<close>

definition chatting :: "string \<Rightarrow> client" where
  "chatting text =
     (signedIn (Some ''abc''))
       \<lparr>messages := [\<lparr>m_id = ''m1'', m_type = TUser, m_content = ''hello'', m_sources = None\<rparr>],
        input := text, currentUser := Some aliceUser, chatSession := Some (sessionOf ''abc''),
        initLoading := False\<rparr>"

text \<open>The effects a run adds to those issued before it.\<close>

definition newEvents :: "client \<Rightarrow> client \<Rightarrow> event list" where
  "newEvents before after = drop (length (trace before)) (trace after)"

definition isPointerWrite :: "event \<Rightarrow> bool" where
  "isPointerWrite e = (case e of LS_setItem k v \<Rightarrow> True | _ \<Rightarrow> False)"

section \<open>Auxiliary facts\<close>

lemmas ls_defs = saveCurrentSession_def getCurrentSession_def clearCurrentSession_def issue_def

lemmas init_defs = initializeUserAndChat_def initTry_def restoreStoredSession_def
  chooseSession_def loadMessages_def initCatch_def newEvents_def

lemmas submit_defs = handleSubmit_def submitTry_def aiMessage_def displayedAnswer_def
  newEvents_def issue_def

lemmas scenario_defs = scriptedBackend_def alice_def aliceUser_def sessionOf_def
  storedMessage_def answerOf_def sourceOf_def freshClient_def signedIn_def chatting_def
  principal_email_def registrationName_def SESSION_KEY_def errorMessage_def uiMessage_def

lemma find_first_id:
  "P \<in> cs_id ` set S \<Longrightarrow>
     \<exists>a. List.find (\<lambda>s. cs_id s = P) S = Some a \<and> a \<in> set S \<and> cs_id a = P"
  by (induction S) auto

lemma find_absent_id:
  "\<forall>s\<in>set S. cs_id s \<noteq> P \<Longrightarrow> List.find (\<lambda>s. cs_id s = P) S = None"
  by (induction S) auto

lemma messageStore_append:
  "messageStore be (xs @ ys) = messageStore be xs @ messageStore be ys"
  by (induction be xs rule: messageStore.induct) (auto split: sum.splits)

section \<open>Reconciliation: which session becomes active\<close>

text \<open>
  Claim C1, as the code has it. Let the identity upsert and the session listing succeed,
  the listing returning \<open>S\<close>, and let the stored pointer equal the identifier of no entry
  of \<open>S\<close> (no pointer stored, or \<open>S\<close> empty, included). If \<open>S\<close> is non-empty the
  reconciler ends with the first entry of \<open>S\<close> active and its identifier stored. If \<open>S\<close>
  is empty and the creation call returns a session, that session is active and its
  identifier is stored. If \<open>S\<close> is empty and the creation call fails, no session is active
  and no pointer is stored. In every case the active session, if there is one, exists: it
  is an entry of \<open>S\<close> or the session the creation call returned.
\<close>

theorem stale_pointer_discarded:
  assumes "principal_email (session st) = Some email"
    and "registerUser be email (registrationName (session st) email) = Inr u"
    and "getUserSessions be email = Inr (S, uid)"
    and "\<forall>s\<in>set S. getCurrentSession st \<noteq> Some (cs_id s)"
  shows "(S \<noteq> [] \<longrightarrow>
            chatSession (initializeUserAndChat be st) = Some (S ! 0)
          \<and> getCurrentSession (initializeUserAndChat be st) = Some (cs_id (S ! 0)))
       \<and> (S = [] \<longrightarrow> (\<forall>v n. createChatSession be email ''New Conversation'' = Inr (v, n) \<longrightarrow>
            chatSession (initializeUserAndChat be st) = Some n
          \<and> getCurrentSession (initializeUserAndChat be st) = Some (cs_id n)))
       \<and> (S = [] \<longrightarrow> (\<forall>e. createChatSession be email ''New Conversation'' = Inl e \<longrightarrow>
            chatSession (initializeUserAndChat be st) = None
          \<and> getCurrentSession (initializeUserAndChat be st) = None))
       \<and> (\<forall>a. chatSession (initializeUserAndChat be st) = Some a \<longrightarrow>
            a \<in> set S
          \<or> S = [] \<and> (\<exists>v. createChatSession be email ''New Conversation'' = Inr (v, a)))"
proof -
  have nf: "\<And>P. getCurrentSession st = Some P \<Longrightarrow> List.find (\<lambda>s. cs_id s = P) S = None"
    using assms(4) by (intro find_absent_id) auto
  show ?thesis
  proof (cases "getCurrentSession st")
    case None
    then show ?thesis using assms(1-3)
      by (auto simp: init_defs ls_defs Let_def split: sum.splits)
  next
    case (Some P)
    from nf [OF Some] Some show ?thesis using assms(1-3)
      by (auto simp: init_defs ls_defs Let_def split: sum.splits)
  qed
qed

text \<open>
  The scenario of the specification: stored pointer \<^verbatim>\<open>stale\<close>, session list
  \<^verbatim>\<open>[xyz]\<close>; session \<^verbatim>\<open>xyz\<close> is selected and stored.
\<close>

theorem stale_pointer_discarded_witness:
  "chatSession (initializeUserAndChat
      (scriptedBackend (Inr aliceUser) (Inr ([sessionOf ''xyz''], ''u1''))
         (Inl NotAnError) (Inr ()) (Inr ()) (Inr []) (Inl NotAnError))
      (signedIn (Some ''stale''))) = Some (sessionOf ''xyz'')
   \<and> getCurrentSession (initializeUserAndChat
      (scriptedBackend (Inr aliceUser) (Inr ([sessionOf ''xyz''], ''u1''))
         (Inl NotAnError) (Inr ()) (Inr ()) (Inr []) (Inl NotAnError))
      (signedIn (Some ''stale''))) = Some ''xyz''"
  using stale_pointer_discarded [of "signedIn (Some ''stale'')" "''alice@example.com''"
      "scriptedBackend (Inr aliceUser) (Inr ([sessionOf ''xyz''], ''u1''))
         (Inl NotAnError) (Inr ()) (Inr ()) (Inr []) (Inl NotAnError)"
      aliceUser "[sessionOf ''xyz'']" "''u1''"]
  by (simp add: scenario_defs getCurrentSession_def)

text \<open>
  Claim C1 as stated fails where the list is empty and the creation call fails: the run
  ends with no pointer stored and no session active.
\<close>

theorem no_pointer_after_failed_creation:
  "getCurrentSession (signedIn (Some ''stale'')) = Some ''stale''
   \<and> getUserSessions (scriptedBackend (Inr aliceUser) (Inr ([], ''u1''))
         (Inl (Error ''API Error: Service Unavailable - ''))
         (Inr ()) (Inr ()) (Inr []) (Inl NotAnError)) ''alice@example.com'' = Inr ([], ''u1'')
   \<and> getCurrentSession (initializeUserAndChat
        (scriptedBackend (Inr aliceUser) (Inr ([], ''u1''))
           (Inl (Error ''API Error: Service Unavailable - ''))
           (Inr ()) (Inr ()) (Inr []) (Inl NotAnError))
        (signedIn (Some ''stale''))) = None
   \<and> chatSession (initializeUserAndChat
        (scriptedBackend (Inr aliceUser) (Inr ([], ''u1''))
           (Inl (Error ''API Error: Service Unavailable - ''))
           (Inr ()) (Inr ()) (Inr []) (Inl NotAnError))
        (signedIn (Some ''stale''))) = None"
  by (simp add: scenario_defs init_defs ls_defs)

text \<open>
  Claim C2, as the code has it. Let the identity upsert and the session listing succeed,
  the listing returning \<open>S\<close>, and let the stored pointer \<open>P\<close> be non-empty and equal the
  identifier of an entry of \<open>S\<close>. Then the active session is the first entry of \<open>S\<close>
  with identifier \<open>P\<close>, the pointer stays \<open>P\<close>, and the history is hydrated: after the
  two calls the only effect is the fetch of the messages of \<open>P\<close>, and what the fetch
  returns is what the view shows.
\<close>

theorem restore_matching:
  assumes "principal_email (session st) = Some email"
    and "registerUser be email (registrationName (session st) email) = Inr u"
    and "getUserSessions be email = Inr (S, uid)"
    and "getCurrentSession st = Some P"
    and "P \<noteq> []"
    and "P \<in> cs_id ` set S"
  shows "\<exists>a. List.find (\<lambda>s. cs_id s = P) S = Some a \<and> a \<in> set S \<and> cs_id a = P
           \<and> chatSession (initializeUserAndChat be st) = Some a
           \<and> getCurrentSession (initializeUserAndChat be st) = Some P
           \<and> newEvents st (initializeUserAndChat be st) =
               [Call_registerUser email (registrationName (session st) email),
                Call_getUserSessions email, Call_fetchMessages P]
           \<and> (\<forall>ms. fetchMessages be P = Inr ms \<longrightarrow>
                 messages (initializeUserAndChat be st) = map uiMessage ms)"
proof -
  from find_first_id [OF assms(6)] obtain a where
    a: "List.find (\<lambda>s. cs_id s = P) S = Some a" "a \<in> set S" "cs_id a = P" by blast
  have ne: "S \<noteq> []" using a(2) by auto
  show ?thesis using assms(1-5) a ne
    by (auto simp: init_defs ls_defs Let_def split: sum.splits)
qed

text \<open>
  The scenario of the specification: stored pointer \<^verbatim>\<open>abc\<close>, session list
  \<^verbatim>\<open>[abc, xyz]\<close>; session \<^verbatim>\<open>abc\<close> is selected and its two messages are shown.
\<close>

theorem restore_matching_witness:
  "chatSession (initializeUserAndChat
      (scriptedBackend (Inr aliceUser) (Inr ([sessionOf ''abc'', sessionOf ''xyz''], ''u1''))
         (Inl NotAnError) (Inr ()) (Inr ())
         (Inr [storedMessage ''m1'' User ''hi'', storedMessage ''m2'' Assistant ''hello''])
         (Inl NotAnError))
      (signedIn (Some ''abc''))) = Some (sessionOf ''abc'')
   \<and> messages (initializeUserAndChat
      (scriptedBackend (Inr aliceUser) (Inr ([sessionOf ''abc'', sessionOf ''xyz''], ''u1''))
         (Inl NotAnError) (Inr ()) (Inr ())
         (Inr [storedMessage ''m1'' User ''hi'', storedMessage ''m2'' Assistant ''hello''])
         (Inl NotAnError))
      (signedIn (Some ''abc''))) =
      [\<lparr>m_id = ''m1'', m_type = TUser, m_content = ''hi'', m_sources = None\<rparr>,
       \<lparr>m_id = ''m2'', m_type = TAi, m_content = ''hello'', m_sources = None\<rparr>]"
  using restore_matching [of "signedIn (Some ''abc'')" "''alice@example.com''"
      "scriptedBackend (Inr aliceUser) (Inr ([sessionOf ''abc'', sessionOf ''xyz''], ''u1''))
         (Inl NotAnError) (Inr ()) (Inr ())
         (Inr [storedMessage ''m1'' User ''hi'', storedMessage ''m2'' Assistant ''hello''])
         (Inl NotAnError)"
      aliceUser "[sessionOf ''abc'', sessionOf ''xyz'']" "''u1''" "''abc''"]
  by (simp add: scenario_defs getCurrentSession_def)

text \<open>
  Claim C2 as stated fails for the empty string: a stored pointer \<^verbatim>\<open>""\<close> is falsy,
  so it is never looked up, although the list holds a session with that identifier; the
  first entry of the list is selected instead.
\<close>

theorem empty_pointer_not_selected:
  "getCurrentSession (signedIn (Some '''')) = Some ''''
   \<and> cs_id (sessionOf '''') = ''''
   \<and> getUserSessions (scriptedBackend (Inr aliceUser)
         (Inr ([sessionOf ''xyz'', sessionOf ''''], ''u1''))
         (Inl NotAnError) (Inr ()) (Inr ()) (Inr []) (Inl NotAnError)) ''alice@example.com''
       = Inr ([sessionOf ''xyz'', sessionOf ''''], ''u1'')
   \<and> chatSession (initializeUserAndChat
        (scriptedBackend (Inr aliceUser) (Inr ([sessionOf ''xyz'', sessionOf ''''], ''u1''))
           (Inl NotAnError) (Inr ()) (Inr ()) (Inr []) (Inl NotAnError))
        (signedIn (Some ''''))) = Some (sessionOf ''xyz'')
   \<and> cs_id (sessionOf ''xyz'') \<noteq> ''''"
  by (simp add: scenario_defs init_defs ls_defs)

text \<open>
  Claim C3, as the code has it. Let the identity upsert succeed and the session listing
  return the empty list. Then the reconciler issues exactly one creation call, with the
  title \<^verbatim>\<open>New Conversation\<close>, and no fetch of messages. If the call returns a
  session, its identifier is stored right after the call, the session is active, no error
  is set and the view holds no message. If the call fails, the pointer is cleared, no
  session is active and the view holds no message.
\<close>

theorem empty_list_creates_session:
  assumes "principal_email (session st) = Some email"
    and "registerUser be email (registrationName (session st) email) = Inr u"
    and "getUserSessions be email = Inr ([], uid)"
  shows "(\<forall>v n. createChatSession be email ''New Conversation'' = Inr (v, n) \<longrightarrow>
            newEvents st (initializeUserAndChat be st) =
              [Call_registerUser email (registrationName (session st) email),
               Call_getUserSessions email,
               Call_createChatSession email ''New Conversation'',
               LS_setItem SESSION_KEY (cs_id n)]
          \<and> chatSession (initializeUserAndChat be st) = Some n
          \<and> getCurrentSession (initializeUserAndChat be st) = Some (cs_id n)
          \<and> messages (initializeUserAndChat be st) = []
          \<and> error (initializeUserAndChat be st) = None
          \<and> initLoading (initializeUserAndChat be st) = False)
       \<and> (\<forall>e. createChatSession be email ''New Conversation'' = Inl e \<longrightarrow>
            newEvents st (initializeUserAndChat be st) =
              [Call_registerUser email (registrationName (session st) email),
               Call_getUserSessions email,
               Call_createChatSession email ''New Conversation'',
               LS_removeItem SESSION_KEY]
          \<and> chatSession (initializeUserAndChat be st) = None
          \<and> getCurrentSession (initializeUserAndChat be st) = None
          \<and> messages (initializeUserAndChat be st) = [])"
  using assms
  by (auto simp: init_defs ls_defs Let_def split: option.splits)

text \<open>
  The scenario of the specification: fresh sign-in, nothing stored, empty session list;
  one session is created and stored, the view is empty.
\<close>

theorem empty_list_creates_session_witness:
  "newEvents (signedIn None) (initializeUserAndChat
      (scriptedBackend (Inr aliceUser) (Inr ([], ''u1''))
         (Inr (aliceUser, sessionOf ''new'')) (Inr ()) (Inr ()) (Inl NotAnError)
         (Inl NotAnError))
      (signedIn None)) =
     [Call_registerUser ''alice@example.com'' ''Alice'',
      Call_getUserSessions ''alice@example.com'',
      Call_createChatSession ''alice@example.com'' ''New Conversation'',
      LS_setItem ''current_session_id'' ''new'']
   \<and> messages (initializeUserAndChat
      (scriptedBackend (Inr aliceUser) (Inr ([], ''u1''))
         (Inr (aliceUser, sessionOf ''new'')) (Inr ()) (Inr ()) (Inl NotAnError)
         (Inl NotAnError))
      (signedIn None)) = []
   \<and> getCurrentSession (initializeUserAndChat
      (scriptedBackend (Inr aliceUser) (Inr ([], ''u1''))
         (Inr (aliceUser, sessionOf ''new'')) (Inr ()) (Inr ()) (Inl NotAnError)
         (Inl NotAnError))
      (signedIn None)) = Some ''new''"
  using empty_list_creates_session [of "signedIn None" "''alice@example.com''"
      "scriptedBackend (Inr aliceUser) (Inr ([], ''u1''))
         (Inr (aliceUser, sessionOf ''new'')) (Inr ()) (Inr ()) (Inl NotAnError)
         (Inl NotAnError)"
      aliceUser "''u1''"]
  by (simp add: scenario_defs)

text \<open>
  Claim C3 as stated fails where the creation call fails: the list is empty, yet no
  session results and no identifier is stored.
\<close>

theorem empty_list_creation_fails:
  "getUserSessions (scriptedBackend (Inr aliceUser) (Inr ([], ''u1'')) (Inl NotAnError)
       (Inr ()) (Inr ()) (Inr []) (Inl NotAnError)) ''alice@example.com'' = Inr ([], ''u1'')
   \<and> chatSession (initializeUserAndChat
        (scriptedBackend (Inr aliceUser) (Inr ([], ''u1'')) (Inl NotAnError)
           (Inr ()) (Inr ()) (Inr []) (Inl NotAnError))
        (signedIn None)) = None
   \<and> getCurrentSession (initializeUserAndChat
        (scriptedBackend (Inr aliceUser) (Inr ([], ''u1'')) (Inl NotAnError)
           (Inr ()) (Inr ()) (Inr []) (Inl NotAnError))
        (signedIn None)) = None"
  by (simp add: scenario_defs init_defs ls_defs)

section \<open>Reconciliation: failures\<close>

text \<open>
  What a failing fetch of the history leaves behind. Let the identity upsert succeed and
  the session listing return a non-empty list \<open>S\<close> (so that the history is to be
  hydrated). Then the reconciler ends with an entry of \<open>S\<close> active and its identifier
  stored, whatever the fetch of the messages answers. If that fetch fails, the warning
  \<^verbatim>\<open>Failed to load message history\<close> is shown; this path calls \<^verbatim>\<open>setError\<close> only,
  so the message list is the one the run started with.
\<close>

lemma hydration_failure_keeps_selection:
  assumes "principal_email (session st) = Some email"
    and "registerUser be email (registrationName (session st) email) = Inr u"
    and "getUserSessions be email = Inr (S, uid)"
    and "S \<noteq> []"
  shows "\<exists>a\<in>set S. chatSession (initializeUserAndChat be st) = Some a
           \<and> getCurrentSession (initializeUserAndChat be st) = Some (cs_id a)
           \<and> initLoading (initializeUserAndChat be st) = False
           \<and> (\<forall>e. fetchMessages be (cs_id a) = Inl e \<longrightarrow>
                 messages (initializeUserAndChat be st) = messages st
               \<and> (messages st = [] \<longrightarrow> messages (initializeUserAndChat be st) = [])
               \<and> error (initializeUserAndChat be st) = Some ''Failed to load message history''
               \<and> errorBanner (initializeUserAndChat be st) =
                   Some ''Failed to load message history'')"
proof (cases "\<exists>P. getCurrentSession st = Some P \<and> P \<noteq> [] \<and> P \<in> cs_id ` set S")
  case True
  then obtain P where P: "getCurrentSession st = Some P" "P \<noteq> []" "P \<in> cs_id ` set S"
    by blast
  from find_first_id [OF P(3)] obtain a where
    a: "List.find (\<lambda>s. cs_id s = P) S = Some a" "a \<in> set S" "cs_id a = P" by blast
  show ?thesis
    using assms P(1,2) a
    by (intro bexI [of _ a])
       (auto simp: init_defs ls_defs errorBanner_def truthy_def Let_def split: sum.splits)
next
  case False
  have hd: "S ! 0 \<in> set S" using assms(4) by simp
  show ?thesis
  proof (cases "getCurrentSession st")
    case None
    then show ?thesis using assms hd
      by (intro bexI [of _ "S ! 0"])
         (auto simp: init_defs ls_defs errorBanner_def truthy_def Let_def split: sum.splits)
  next
    case (Some P)
    show ?thesis
    proof (cases "P = []")
      case True
      then show ?thesis using assms hd Some
        by (intro bexI [of _ "S ! 0"])
           (auto simp: init_defs ls_defs errorBanner_def truthy_def Let_def split: sum.splits)
    next
      case ne: False
      with False Some have "\<forall>s\<in>set S. cs_id s \<noteq> P" by auto
      from find_absent_id [OF this] show ?thesis using assms hd Some ne
        by (intro bexI [of _ "S ! 0"])
           (auto simp: init_defs ls_defs errorBanner_def truthy_def Let_def split: sum.splits)
    qed
  qed
qed

text \<open>
  First sign-in with pointer \<^verbatim>\<open>abc\<close> and list \<^verbatim>\<open>[abc]\<close>, the fetch failing: session
  \<^verbatim>\<open>abc\<close> stays selected, the view is empty and shows the warning.
\<close>

lemma hydration_failure_keeps_selection_first_run:
  "chatSession (initializeUserAndChat
      (scriptedBackend (Inr aliceUser) (Inr ([sessionOf ''abc''], ''u1'')) (Inl NotAnError)
         (Inr ()) (Inr ()) (Inl (Error ''API Error: Internal Server Error - ''))
         (Inl NotAnError))
      (signedIn (Some ''abc''))) = Some (sessionOf ''abc'')
   \<and> messages (initializeUserAndChat
      (scriptedBackend (Inr aliceUser) (Inr ([sessionOf ''abc''], ''u1'')) (Inl NotAnError)
         (Inr ()) (Inr ()) (Inl (Error ''API Error: Internal Server Error - ''))
         (Inl NotAnError))
      (signedIn (Some ''abc''))) = []
   \<and> errorBanner (initializeUserAndChat
      (scriptedBackend (Inr aliceUser) (Inr ([sessionOf ''abc''], ''u1'')) (Inl NotAnError)
         (Inr ()) (Inr ()) (Inl (Error ''API Error: Internal Server Error - ''))
         (Inl NotAnError))
      (signedIn (Some ''abc''))) = Some ''Failed to load message history''"
  using hydration_failure_keeps_selection [of "signedIn (Some ''abc'')" "''alice@example.com''"
      "scriptedBackend (Inr aliceUser) (Inr ([sessionOf ''abc''], ''u1'')) (Inl NotAnError)
         (Inr ()) (Inr ()) (Inl (Error ''API Error: Internal Server Error - ''))
         (Inl NotAnError)"
      aliceUser "[sessionOf ''abc'']" "''u1''"]
  by (simp add: scenario_defs)

text \<open>
  Claim C5: when the history is to be hydrated and the fetch of the selected session's
  messages fails, the selected session stays active, its pointer stays stored, a warning
  is shown and the displayed message list is empty. The selection, the pointer and the
  warning are as claimed (see above); the list is not emptied. A client that shows a
  message of session \<^verbatim>\<open>abc\<close> and holds the pointer \<^verbatim>\<open>abc\<close> runs the reconciler
  again; the backend lists \<^verbatim>\<open>[xyz]\<close> only and the fetch fails. Session \<^verbatim>\<open>xyz\<close>
  becomes active and is stored, the warning is shown, and the message of \<^verbatim>\<open>abc\<close> is
  still on display. The branch without hydration (line 155) and the outer catch (line 164)
  both call \<^verbatim>\<open>setMessages([])\<close>; the inner catch (lines 148 to 152) does not.
\<close>

theorem hydration_failure_leaves_messages:
  "messages (chatting []) =
     [\<lparr>m_id = ''m1'', m_type = TUser, m_content = ''hello'', m_sources = None\<rparr>]
   \<and> getCurrentSession (chatting []) = Some ''abc''
   \<and> fetchMessages (scriptedBackend (Inr aliceUser) (Inr ([sessionOf ''xyz''], ''u1''))
       (Inl NotAnError) (Inr ()) (Inr ()) (Inl (Error ''API Error: Internal Server Error - ''))
       (Inl NotAnError)) ''xyz'' = Inl (Error ''API Error: Internal Server Error - '')
   \<and> chatSession (initializeUserAndChat
        (scriptedBackend (Inr aliceUser) (Inr ([sessionOf ''xyz''], ''u1''))
           (Inl NotAnError) (Inr ()) (Inr ())
           (Inl (Error ''API Error: Internal Server Error - '')) (Inl NotAnError))
        (chatting [])) = Some (sessionOf ''xyz'')
   \<and> getCurrentSession (initializeUserAndChat
        (scriptedBackend (Inr aliceUser) (Inr ([sessionOf ''xyz''], ''u1''))
           (Inl NotAnError) (Inr ()) (Inr ())
           (Inl (Error ''API Error: Internal Server Error - '')) (Inl NotAnError))
        (chatting [])) = Some ''xyz''
   \<and> errorBanner (initializeUserAndChat
        (scriptedBackend (Inr aliceUser) (Inr ([sessionOf ''xyz''], ''u1''))
           (Inl NotAnError) (Inr ()) (Inr ())
           (Inl (Error ''API Error: Internal Server Error - '')) (Inl NotAnError))
        (chatting [])) = Some ''Failed to load message history''
   \<and> messages (initializeUserAndChat
        (scriptedBackend (Inr aliceUser) (Inr ([sessionOf ''xyz''], ''u1''))
           (Inl NotAnError) (Inr ()) (Inr ())
           (Inl (Error ''API Error: Internal Server Error - '')) (Inl NotAnError))
        (chatting [])) =
       [\<lparr>m_id = ''m1'', m_type = TUser, m_content = ''hello'', m_sources = None\<rparr>]"
  by (simp add: scenario_defs init_defs ls_defs errorBanner_def truthy_def)




section \<open>Signing out\<close>

text \<open>
  Claim C8, as the code has it. The reconciler, run without an authenticated principal
  (no session, or a session without e-mail), only ends the initialising state: it calls
  no backend operation and leaves the view and the stored pointer as they are. Clearing
  is the work of the listener of the identity provider: told that the session is gone, it
  removes the stored pointer and clears the active session, the user and the message
  list; the reconciler run that follows issues no further effect.
\<close>

theorem signed_out_terminates:
  "(principal_email (session st) = None \<longrightarrow>
      initializeUserAndChat be st = st\<lparr>initLoading := False\<rparr>
    \<and> newEvents st (initializeUserAndChat be st) = [])
   \<and> chatSession (initializeUserAndChat be (onAuthStateChange True None st)) = None
   \<and> currentUser (initializeUserAndChat be (onAuthStateChange True None st)) = None
   \<and> messages (initializeUserAndChat be (onAuthStateChange True None st)) = []
   \<and> getCurrentSession (initializeUserAndChat be (onAuthStateChange True None st)) = None
   \<and> session (initializeUserAndChat be (onAuthStateChange True None st)) = None
   \<and> initLoading (initializeUserAndChat be (onAuthStateChange True None st)) = False
   \<and> newEvents st (initializeUserAndChat be (onAuthStateChange True None st)) =
       [LS_removeItem SESSION_KEY]"
  by (simp add: initializeUserAndChat_def onAuthStateChange_def principal_email_def
      newEvents_def ls_defs)

text \<open>
  A session without e-mail: the reconciler run changes nothing but the initialising flag.
\<close>

theorem signed_out_terminates_witness:
  "initializeUserAndChat
      (scriptedBackend (Inr aliceUser) (Inr ([], ''u1'')) (Inl NotAnError) (Inr ()) (Inr ())
         (Inr []) (Inl NotAnError))
      ((chatting [])\<lparr>session := Some \<lparr>au_email = None, au_full_name = None\<rparr>\<rparr>)
    = (chatting [])\<lparr>session := Some \<lparr>au_email = None, au_full_name = None\<rparr>,
                    initLoading := False\<rparr>"
  using signed_out_terminates [of "(chatting [])\<lparr>session := Some \<lparr>au_email = None, au_full_name = None\<rparr>\<rparr>"
      "scriptedBackend (Inr aliceUser) (Inr ([], ''u1'')) (Inl NotAnError) (Inr ()) (Inr ())
         (Inr []) (Inl NotAnError)"]
  by (simp add: principal_email_def)

text \<open>
  Claim C8 as stated fails for the reconciler itself: run with no session (as on every
  page load, before the identity provider has answered) by a client that holds the
  pointer \<^verbatim>\<open>abc\<close>, it issues no effect and the pointer stays stored.
\<close>

theorem reconciler_keeps_pointer_without_principal:
  "principal_email (session ((signedIn (Some ''abc''))\<lparr>session := None\<rparr>)) = None
   \<and> getCurrentSession ((signedIn (Some ''abc''))\<lparr>session := None\<rparr>) = Some ''abc''
   \<and> getCurrentSession (initializeUserAndChat
        (scriptedBackend (Inr aliceUser) (Inr ([], ''u1'')) (Inl NotAnError) (Inr ()) (Inr ())
           (Inr []) (Inl NotAnError))
        ((signedIn (Some ''abc''))\<lparr>session := None\<rparr>)) = Some ''abc''
   \<and> trace (initializeUserAndChat
        (scriptedBackend (Inr aliceUser) (Inr ([], ''u1'')) (Inl NotAnError) (Inr ()) (Inr ())
           (Inr []) (Inl NotAnError))
        ((signedIn (Some ''abc''))\<lparr>session := None\<rparr>)) = []"
  by (simp add: scenario_defs init_defs ls_defs)

section \<open>Sending a message\<close>






text \<open>
  Claim C10. For a send whose three backend calls succeed, the content appended to the
  message store for the assistant turn is the raw \<^verbatim>\<open>final_answer\<close>, while the bubble
  added to the view shows \<^verbatim>\<open>No response generated\<close> in place of an empty answer. The
  content shown therefore equals the content stored exactly when the answer is not empty.
\<close>

theorem empty_answer_placeholder:
  assumes "trim (input st) \<noteq> []"
    and "principal_email (session st) = Some email"
    and "chatSession st = Some cs"
    and "storeMessage be (cs_id cs) User (input st) = Inr ack1"
    and "sendChatMessage be (input st) = Inr d"
    and "storeMessage be (cs_id cs) Assistant (final_answer d) = Inr ack2"
  shows "last (newEvents st (handleSubmit be now1 now2 st)) =
           Call_storeMessage (cs_id cs) Assistant (final_answer d)
       \<and> last (messageStore be (trace (handleSubmit be now1 now2 st))) =
           (cs_id cs, Assistant, final_answer d)
       \<and> m_type (last (messages (handleSubmit be now1 now2 st))) = TAi
       \<and> m_content (last (messages (handleSubmit be now1 now2 st))) =
           (if final_answer d = [] then ''No response generated'' else final_answer d)
       \<and> (m_content (last (messages (handleSubmit be now1 now2 st))) =
            snd (snd (last (messageStore be (trace (handleSubmit be now1 now2 st)))))
          \<longleftrightarrow> final_answer d \<noteq> [])"
  using assms
  by (auto simp: submit_defs messageStore_append)

text \<open>An empty answer: the empty string is stored, the placeholder is shown.\<close>

theorem empty_answer_placeholder_witness:
  "last (messageStore
       (scriptedBackend (Inr aliceUser) (Inr ([sessionOf ''abc''], ''u1'')) (Inl NotAnError)
          (Inr ()) (Inr ()) (Inr []) (Inr (answerOf [] [])))
       (trace (handleSubmit
          (scriptedBackend (Inr aliceUser) (Inr ([sessionOf ''abc''], ''u1'')) (Inl NotAnError)
             (Inr ()) (Inr ()) (Inr []) (Inr (answerOf [] [])))
          1000 2000 (chatting ''What is Spectra?'')))) = (''abc'', Assistant, [])
   \<and> m_content (last (messages (handleSubmit
       (scriptedBackend (Inr aliceUser) (Inr ([sessionOf ''abc''], ''u1'')) (Inl NotAnError)
          (Inr ()) (Inr ()) (Inr []) (Inr (answerOf [] [])))
       1000 2000 (chatting ''What is Spectra?'')))) = ''No response generated''"
  using empty_answer_placeholder [of "chatting ''What is Spectra?''"
      "''alice@example.com''" "sessionOf ''abc''"
      "scriptedBackend (Inr aliceUser) (Inr ([sessionOf ''abc''], ''u1'')) (Inl NotAnError)
          (Inr ()) (Inr ()) (Inr []) (Inr (answerOf [] []))"
      "()" "answerOf [] []" "()" 1000 2000]
  by (simp add: scenario_defs trim_def js_whitespace_def)

section \<open>Writes to the stored pointer\<close>

text \<open>The effects of a run of the reconciler, path by path.\<close>

lemma no_match_absent:
  "List.find (\<lambda>s. cs_id s = P) S = None \<Longrightarrow> P \<notin> cs_id ` set S"
  by (auto simp: find_None_iff)

lemma run_no_principal:
  "principal_email (session st) = None \<Longrightarrow> newEvents st (initializeUserAndChat be st) = []"
  by (simp add: initializeUserAndChat_def newEvents_def)

lemma run_register_fails:
  assumes "principal_email (session st) = Some email"
    and "registerUser be email (registrationName (session st) email) = Inl e"
  shows "newEvents st (initializeUserAndChat be st) =
           [Call_registerUser email (registrationName (session st) email),
            LS_removeItem SESSION_KEY]"
  using assms by (simp add: init_defs ls_defs Let_def)

lemma run_listing_fails:
  assumes "principal_email (session st) = Some email"
    and "registerUser be email (registrationName (session st) email) = Inr u"
    and "getUserSessions be email = Inl e"
  shows "newEvents st (initializeUserAndChat be st) =
           [Call_registerUser email (registrationName (session st) email),
            Call_getUserSessions email, LS_removeItem SESSION_KEY]"
  using assms by (simp add: init_defs ls_defs Let_def)

lemma run_creation_fails:
  assumes "principal_email (session st) = Some email"
    and "registerUser be email (registrationName (session st) email) = Inr u"
    and "getUserSessions be email = Inr ([], uid)"
    and "createChatSession be email ''New Conversation'' = Inl e"
  shows "newEvents st (initializeUserAndChat be st) =
           [Call_registerUser email (registrationName (session st) email),
            Call_getUserSessions email,
            Call_createChatSession email ''New Conversation'',
            LS_removeItem SESSION_KEY]"
  using assms by (simp add: init_defs ls_defs Let_def split: option.splits)

lemma run_created:
  assumes "principal_email (session st) = Some email"
    and "registerUser be email (registrationName (session st) email) = Inr u"
    and "getUserSessions be email = Inr ([], uid)"
    and "createChatSession be email ''New Conversation'' = Inr (v, n)"
  shows "newEvents st (initializeUserAndChat be st) =
           [Call_registerUser email (registrationName (session st) email),
            Call_getUserSessions email,
            Call_createChatSession email ''New Conversation'',
            LS_setItem SESSION_KEY (cs_id n)]"
    and "getCurrentSession (initializeUserAndChat be st) = Some (cs_id n)"
    and "chatSession (initializeUserAndChat be st) = Some n"
  using assms by (simp_all add: init_defs ls_defs Let_def split: option.splits)

lemma run_restored:
  assumes "principal_email (session st) = Some email"
    and "registerUser be email (registrationName (session st) email) = Inr u"
    and "getUserSessions be email = Inr (S, uid)"
    and "S \<noteq> []"
    and "getCurrentSession st = Some P"
    and "P \<noteq> []"
    and "List.find (\<lambda>s. cs_id s = P) S = Some a"
  shows "newEvents st (initializeUserAndChat be st) =
           [Call_registerUser email (registrationName (session st) email),
            Call_getUserSessions email, Call_fetchMessages (cs_id a)]"
  using assms by (simp add: init_defs ls_defs Let_def split: sum.splits)

lemma run_stale:
  assumes "principal_email (session st) = Some email"
    and "registerUser be email (registrationName (session st) email) = Inr u"
    and "getUserSessions be email = Inr (S, uid)"
    and "S \<noteq> []"
    and "getCurrentSession st = Some P"
    and "P \<noteq> []"
    and "List.find (\<lambda>s. cs_id s = P) S = None"
  shows "newEvents st (initializeUserAndChat be st) =
           [Call_registerUser email (registrationName (session st) email),
            Call_getUserSessions email, LS_removeItem SESSION_KEY,
            LS_setItem SESSION_KEY (cs_id (S ! 0)), Call_fetchMessages (cs_id (S ! 0))]"
    and "getCurrentSession (initializeUserAndChat be st) = Some (cs_id (S ! 0))"
    and "chatSession (initializeUserAndChat be st) = Some (S ! 0)"
  using assms by (simp_all add: init_defs ls_defs Let_def split: sum.splits)

lemma run_unset:
  assumes "principal_email (session st) = Some email"
    and "registerUser be email (registrationName (session st) email) = Inr u"
    and "getUserSessions be email = Inr (S, uid)"
    and "S \<noteq> []"
    and "getCurrentSession st = None \<or> getCurrentSession st = Some []"
  shows "newEvents st (initializeUserAndChat be st) =
           [Call_registerUser email (registrationName (session st) email),
            Call_getUserSessions email,
            LS_setItem SESSION_KEY (cs_id (S ! 0)), Call_fetchMessages (cs_id (S ! 0))]"
    and "getCurrentSession (initializeUserAndChat be st) = Some (cs_id (S ! 0))"
    and "chatSession (initializeUserAndChat be st) = Some (S ! 0)"
  using assms by (auto simp: init_defs ls_defs Let_def split: sum.splits)

text \<open>
  Claim C9. In every run of the reconciler a write to local storage is a write of the
  pointer, there is exactly one in the run, and it happens only when no stored pointer
  matched an entry of the session list: either the list is non-empty and the identifier
  written is that of its first entry, or the list is empty, the creation call has returned
  a session and the identifier written is that of the new session. The write is never
  undone in the run: the run ends with that identifier stored and a session of that
  identifier active. Every other change of local storage in a run is a removal of the
  pointer, made when a non-empty stored pointer matches no entry of a non-empty list, or
  when the upsert, the listing or the creation has failed. The listener of the identity
  provider only removes the pointer, and only on sign-out; a submit leaves local storage
  as it is.
\<close>

theorem pointer_writes_only_after_selection:
  "(\<forall>k x. LS_setItem k x \<in> set (newEvents st (initializeUserAndChat be st)) \<longrightarrow>
        k = SESSION_KEY
      \<and> length (filter isPointerWrite (newEvents st (initializeUserAndChat be st))) = 1
      \<and> getCurrentSession (initializeUserAndChat be st) = Some x
      \<and> (\<exists>a. chatSession (initializeUserAndChat be st) = Some a \<and> cs_id a = x)
      \<and> (\<exists>email S uid.
            principal_email (session st) = Some email
          \<and> getUserSessions be email = Inr (S, uid)
          \<and> (\<forall>P. getCurrentSession st = Some P \<and> P \<noteq> [] \<longrightarrow> P \<notin> cs_id ` set S)
          \<and> (S \<noteq> [] \<and> x = cs_id (S ! 0)
             \<or> S = [] \<and> (\<exists>v n. createChatSession be email ''New Conversation'' = Inr (v, n)
                               \<and> x = cs_id n))))
   \<and> (\<forall>k. LS_removeItem k \<in> set (newEvents st (initializeUserAndChat be st)) \<longrightarrow>
        k = SESSION_KEY
      \<and> (\<exists>email.
            principal_email (session st) = Some email
          \<and> ((\<exists>S uid P. getUserSessions be email = Inr (S, uid) \<and> S \<noteq> []
                  \<and> getCurrentSession st = Some P \<and> P \<noteq> [] \<and> P \<notin> cs_id ` set S)
             \<or> (\<exists>e. registerUser be email (registrationName (session st) email) = Inl e)
             \<or> (\<exists>e. getUserSessions be email = Inl e)
             \<or> (\<exists>uid e. getUserSessions be email = Inr ([], uid)
                  \<and> createChatSession be email ''New Conversation'' = Inl e))))
   \<and> newEvents st (onAuthStateChange isMounted newSession st) =
       (if isMounted \<and> newSession = None then [LS_removeItem SESSION_KEY] else [])
   \<and> localStorage (handleSubmit be' now1 now2 st) = localStorage st"
  (is "?writes \<and> ?clears \<and> ?listener \<and> ?submit")
proof -
  have run: "?writes \<and> ?clears"
  proof (cases "principal_email (session st)")
    case None
    from run_no_principal [OF None] show ?thesis by simp
  next
    case (Some email)
    show ?thesis
    proof (cases "registerUser be email (registrationName (session st) email)")
      case (Inl e)
      from run_register_fails [OF Some Inl] Some Inl show ?thesis by simp
    next
      case (Inr u)
      show ?thesis
      proof (cases "getUserSessions be email")
        case (Inl e)
        from run_listing_fails [OF Some Inr Inl] Some Inl show ?thesis by simp
      next
        case listed: (Inr p)
        obtain S uid where p: "p = (S, uid)" by (cases p)
        note listed = listed [unfolded p]
        show ?thesis
        proof (cases "S = []")
          case True
          note listed = listed [unfolded True]
          show ?thesis
          proof (cases "createChatSession be email ''New Conversation''")
            case (Inl e)
            from run_creation_fails [OF Some Inr listed Inl] Some listed Inl
            show ?thesis by simp
          next
            case created: (Inr q)
            obtain v n where q: "q = (v, n)" by (cases q)
            note created = created [unfolded q]
            from run_created [OF Some Inr listed created] Some listed created
            show ?thesis by (simp add: isPointerWrite_def)
          qed
        next
          case False
          show ?thesis
          proof (cases "getCurrentSession st = None \<or> getCurrentSession st = Some []")
            case True
            from run_unset [OF Some Inr listed False True] Some listed False True
            show ?thesis by (auto simp: isPointerWrite_def)
          next
            case stored: False
            then obtain P where P: "getCurrentSession st = Some P" "P \<noteq> []" by auto
            show ?thesis
            proof (cases "List.find (\<lambda>s. cs_id s = P) S")
              case None
              from run_stale [OF Some Inr listed False P None] Some listed False P
                no_match_absent [OF None]
              show ?thesis by (simp add: isPointerWrite_def)
            next
              case found: (Some a)
              from run_restored [OF Some Inr listed False P found]
              show ?thesis by simp
            qed
          qed
        qed
      qed
    qed
  qed
  have listener: ?listener
    by (simp add: onAuthStateChange_def newEvents_def ls_defs)
  have submit: ?submit
    by (simp add: submit_defs Let_def split: option.splits sum.splits)
  from run listener submit show ?thesis by blast
qed

text \<open>
  Stored pointer \<^verbatim>\<open>stale\<close>, session list \<^verbatim>\<open>[xyz]\<close>: the run removes the pointer,
  then writes \<^verbatim>\<open>xyz\<close> once and ends with it stored; a sign-out removes the pointer.
\<close>

theorem pointer_writes_only_after_selection_witness:
  "LS_setItem ''current_session_id'' ''xyz'' \<in> set (newEvents (signedIn (Some ''stale''))
      (initializeUserAndChat
         (scriptedBackend (Inr aliceUser) (Inr ([sessionOf ''xyz''], ''u1''))
            (Inl NotAnError) (Inr ()) (Inr ()) (Inr []) (Inl NotAnError))
         (signedIn (Some ''stale''))))
   \<and> length (filter isPointerWrite (newEvents (signedIn (Some ''stale''))
      (initializeUserAndChat
         (scriptedBackend (Inr aliceUser) (Inr ([sessionOf ''xyz''], ''u1''))
            (Inl NotAnError) (Inr ()) (Inr ()) (Inr []) (Inl NotAnError))
         (signedIn (Some ''stale''))))) = 1
   \<and> getCurrentSession (initializeUserAndChat
         (scriptedBackend (Inr aliceUser) (Inr ([sessionOf ''xyz''], ''u1''))
            (Inl NotAnError) (Inr ()) (Inr ()) (Inr []) (Inl NotAnError))
         (signedIn (Some ''stale''))) = Some ''xyz''
   \<and> newEvents (signedIn (Some ''stale''))
        (onAuthStateChange True None (signedIn (Some ''stale''))) =
       [LS_removeItem ''current_session_id'']"
  using pointer_writes_only_after_selection [of "signedIn (Some ''stale'')"
      "scriptedBackend (Inr aliceUser) (Inr ([sessionOf ''xyz''], ''u1''))
         (Inl NotAnError) (Inr ()) (Inr ()) (Inr []) (Inl NotAnError)"
      True None
      "scriptedBackend (Inr aliceUser) (Inr ([sessionOf ''xyz''], ''u1''))
         (Inl NotAnError) (Inr ()) (Inr ()) (Inr []) (Inl NotAnError)"
      1000 2000]
  by (simp add: scenario_defs init_defs ls_defs isPointerWrite_def)

end
